theory Spec2Isabelle
  imports Complex_Main
begin

section \<open>The tokenomics engine of BuyerCalculator.tsx\<close>

text \<open>
  The engine is the group of arrow functions inside the component \<^verbatim>\<open>BuyerCalculator\<close>
  (\<^verbatim>\<open>calculateCashbackPercent\<close> ... \<^verbatim>\<open>calculateBurnedTokens\<close>) and the body of the
  \<^verbatim>\<open>results\<close> memo. Each of them is translated below under its own name.

  Numbers. A JavaScript \<^verbatim>\<open>number\<close> is modelled as a \<^typ>\<open>real\<close>: the formulas are read in
  exact arithmetic. Rounding of IEEE doubles, infinities and NaN are outside the model.
  In particular the source never fails on a zero denominator (it produces an infinity or
  NaN) whereas HOL's \<open>x / 0\<close> is \<open>0\<close>; the two agree only where no denominator is zero.
  A theorem whose statement depends on the value of a quotient therefore assumes the
  denominator non-zero, as the specification asks of callers (\<open>user_cap\<close>, \<open>burn_cap\<close> and
  the token price strictly positive). A theorem that holds by the shape of the
  computation alone, whatever the quotients are, carries no such assumption.

  \<^verbatim>\<open>numberOfPurchases\<close> only ever holds the result of \<^verbatim>\<open>parseInt\<close>, of \<^verbatim>\<open>Math.floor\<close> or
  the initial literal, so it is an \<^typ>\<open>int\<close>; zero and negative values stay expressible.
\<close>

subsection \<open>Data\<close>

record SystemParams =
  CB_base :: real
  alpha :: real
  beta :: real
  gamma :: real
  P0 :: real
  k :: real
  discount_base :: real
  theta :: real
  burn_cap :: real
  access_fee :: real
  user_cap :: real
  t_launch :: real

record UserInputs =
  purchasePrice :: real
  numberOfPurchases :: int
  period :: real
  reviewQuality :: real
  returnProbability :: real

definition ASSUMED_USERS :: real where
  "ASSUMED_USERS = 100"

definition ASSUMED_BURN_RATE :: real where
  "ASSUMED_BURN_RATE = 0.3"

definition INITIAL_GLOBAL_MINTED :: real where
  "INITIAL_GLOBAL_MINTED = 10000"

definition DEFAULT_SYSTEM_PARAMS :: SystemParams where
  "DEFAULT_SYSTEM_PARAMS =
     \<lparr> CB_base = 0.05, alpha = 0.01, beta = 0.3, gamma = 0.5, P0 = 1.0, k = 0.0001,
       discount_base = 0.1, theta = 0.006, burn_cap = 1000000, access_fee = 10,
       user_cap = 10000, t_launch = 0 \<rparr>"

text \<open>The initial value of the \<^verbatim>\<open>userInputs\<close> state.\<close>

definition initialUserInputs :: UserInputs where
  "initialUserInputs =
     \<lparr> purchasePrice = 10000, numberOfPurchases = 7, period = 1,
       reviewQuality = 0.8, returnProbability = 0.1 \<rparr>"

subsection \<open>Formula library\<close>

definition calculateCashbackPercent :: "real \<Rightarrow> SystemParams \<Rightarrow> real" where
  "calculateCashbackPercent t params =
     max 0 (CB_base params * (1 - alpha params * (t - t_launch params)))"

definition calculateQualityFactor :: "real \<Rightarrow> real \<Rightarrow> SystemParams \<Rightarrow> real" where
  "calculateQualityFactor retProb revQual params =
     1 + beta params * (1 - retProb) * revQual"

definition calculateDiminishingFactor :: "real \<Rightarrow> SystemParams \<Rightarrow> real" where
  "calculateDiminishingFactor totalMinted params =
     exp (- gamma params * (totalMinted / user_cap params))"

definition calculateTokenPrice :: "real \<Rightarrow> SystemParams \<Rightarrow> real" where
  "calculateTokenPrice totalMinted params =
     P0 params * (1 + k params * totalMinted ^ 2)"

definition calculateDiscountPercent :: "real \<Rightarrow> SystemParams \<Rightarrow> real" where
  "calculateDiscountPercent burnedYear params =
     max 0 (discount_base params * (1 - theta params * (burnedYear / burn_cap params)))"

subsection \<open>Mint accumulator\<close>

text \<open>
  The body of the \<^verbatim>\<open>for\<close> loop of \<^verbatim>\<open>calculateMintedTokens\<close>, on the pair of mutable
  variables \<open>(currentGlobalTotalMinted, totalMintedUser)\<close>. The source rounds every
  operation of this body, \<^verbatim>\<open>Math.exp\<close> included, to a double, and the body here does
  not: it keeps the operations and their order and computes them exactly. What is
  proved of it below is the structure of the iteration and the sign of what it adds;
  how the rounded totals of two nearby inputs compare is not a property of this
  definition, and nothing below rests on it.
\<close>

definition mint_body :: "UserInputs \<Rightarrow> SystemParams \<Rightarrow> real \<Rightarrow> real \<times> real \<Rightarrow> real \<times> real" where
  "mint_body inputs params t s =
     (case s of (currentGlobalTotalMinted, totalMinted) \<Rightarrow>
        let CB_pct = calculateCashbackPercent t params;
            QFi = calculateQualityFactor (returnProbability inputs) (reviewQuality inputs) params;
            DF = calculateDiminishingFactor totalMinted params;
            Ptoken = calculateTokenPrice currentGlobalTotalMinted params;
            mintedForPurchase = (purchasePrice inputs * CB_pct * QFi * DF) / Ptoken
        in (currentGlobalTotalMinted + mintedForPurchase, totalMinted + mintedForPurchase))"

text \<open>\<^verbatim>\<open>for (let i = 0; i < inputs.numberOfPurchases; i++) { ... }\<close>, entered at index \<open>i\<close>.\<close>

function mint_loop :: "UserInputs \<Rightarrow> SystemParams \<Rightarrow> real \<Rightarrow> nat \<Rightarrow> real \<times> real \<Rightarrow> real \<times> real" where
  "mint_loop inputs params t i s =
     (if int i < numberOfPurchases inputs
      then mint_loop inputs params t (i + 1) (mint_body inputs params t s)
      else s)"
  by pat_completeness auto
termination
  by (relation "measure (\<lambda>(inputs, params, t, i, s). nat (numberOfPurchases inputs - int i))") auto

declare mint_loop.simps [simp del]

record MintResult =
  totalMintedUser :: real
  newGlobalTotalMinted :: real
  dfFirst :: real
  dfLast :: real
  mintedPerPurchaseAvg :: real

definition calculateMintedTokens :: "UserInputs \<Rightarrow> SystemParams \<Rightarrow> real \<Rightarrow> MintResult" where
  "calculateMintedTokens inputs params globalTotalMinted =
     (let t = of_int \<lfloor>period inputs\<rfloor>;
          dfFirst0 = calculateDiminishingFactor 0 params;
          final = mint_loop inputs params t 0 (globalTotalMinted, 0);
          dfLast0 = calculateDiminishingFactor (snd final) params;
          avg = snd final / of_int (numberOfPurchases inputs)
      in \<lparr> totalMintedUser = snd final, newGlobalTotalMinted = fst final,
           dfFirst = dfFirst0, dfLast = dfLast0, mintedPerPurchaseAvg = avg \<rparr>)"

subsection \<open>Burn accumulator\<close>

text \<open>The loop of \<^verbatim>\<open>calculateBurnedTokens\<close> on the mutable variable \<open>totalBurned\<close>.\<close>

function burn_loop :: "UserInputs \<Rightarrow> real \<Rightarrow> real \<Rightarrow> nat \<Rightarrow> real \<Rightarrow> real" where
  "burn_loop inputs discount_pct tokenPrice i totalBurned =
     (if int i < numberOfPurchases inputs
      then (let discountInRubles = purchasePrice inputs * discount_pct;
                burnedForPurchase = discountInRubles / tokenPrice
            in burn_loop inputs discount_pct tokenPrice (i + 1) (totalBurned + burnedForPurchase))
      else totalBurned)"
  by pat_completeness auto
termination
  by (relation "measure (\<lambda>(inputs, d, p, i, b). nat (numberOfPurchases inputs - int i))") auto

declare burn_loop.simps [simp del]

definition calculateBurnedTokens :: "UserInputs \<Rightarrow> SystemParams \<Rightarrow> real \<Rightarrow> real \<Rightarrow> real" where
  "calculateBurnedTokens inputs params burnedYear tokenPrice =
     (let discount_pct = calculateDiscountPercent burnedYear params;
          totalBurned = burn_loop inputs discount_pct tokenPrice 0 0
      in totalBurned + access_fee params)"

subsection \<open>Result composition\<close>

text \<open>
  The object returned by the \<^verbatim>\<open>results\<close> memo. Its fields carry the prefix \<open>res_\<close>, those
  of its \<^verbatim>\<open>breakdown\<close> the prefix \<open>bd_\<close>, since several of them share a name with a field
  of \<open>MintResult\<close> or with a function.
\<close>

record Breakdown =
  bd_t :: real
  bd_CB_percent :: real
  bd_QF :: real
  bd_dfFirst :: real
  bd_dfLast :: real
  bd_mintedPerPurchaseAvg :: real
  bd_capUsage :: real
  bd_discount_percent :: real
  bd_discountRubTotal :: real
  bd_burnDiscountTokens :: real
  bd_accessFeeTokens :: real
  bd_netValueRub :: real
  bd_effectiveCashbackRub :: real
  bd_effectiveDiscountRub :: real
  bd_initialGlobalTotalMinted :: real
  bd_assumedUsers :: real
  bd_assumedBurnRate :: real
  bd_newGlobalTotalMinted :: real

record Results =
  res_totalMintedUser :: real
  res_tokenPrice :: real
  res_totalBurned :: real
  res_burnDestroyed :: real
  res_burnRedistributed :: real
  res_netTokens :: real
  res_breakdown :: Breakdown

definition results :: "UserInputs \<Rightarrow> SystemParams \<Rightarrow> Results" where
  "results userInputs systemParams =
     (let initialGlobalTotalMinted = INITIAL_GLOBAL_MINTED;
          t = of_int \<lfloor>period userInputs\<rfloor>;
          mintResult = calculateMintedTokens userInputs systemParams initialGlobalTotalMinted;
          totalMinted = totalMintedUser mintResult;
          newGlobal = initialGlobalTotalMinted + (totalMinted * ASSUMED_USERS);
          tokenPrice = calculateTokenPrice newGlobal systemParams;
          assumedMarketBurnedYearTokens = totalMinted * ASSUMED_BURN_RATE * ASSUMED_USERS;
          totalBurned = calculateBurnedTokens userInputs systemParams
                          assumedMarketBurnedYearTokens tokenPrice;
          burnDestroyed = totalBurned * 0.7;
          burnRedistributed = totalBurned * 0.3;
          CB_pct = calculateCashbackPercent t systemParams;
          QF = calculateQualityFactor (returnProbability userInputs) (reviewQuality userInputs)
                 systemParams;
          capUsage = totalMinted / user_cap systemParams;
          discount_pct = calculateDiscountPercent assumedMarketBurnedYearTokens systemParams;
          discountRubTotal =
            purchasePrice userInputs * of_int (numberOfPurchases userInputs) * discount_pct;
          burnDiscountTokens = discountRubTotal / tokenPrice;
          accessFeeTokens = access_fee systemParams;
          netValueRub = (totalMinted - totalBurned) * tokenPrice;
          effectiveCashbackRub = totalMinted * tokenPrice;
          effectiveDiscountRub = totalBurned * tokenPrice
      in \<lparr> res_totalMintedUser = totalMinted,
           res_tokenPrice = tokenPrice,
           res_totalBurned = totalBurned,
           res_burnDestroyed = burnDestroyed,
           res_burnRedistributed = burnRedistributed,
           res_netTokens = totalMinted - totalBurned,
           res_breakdown =
             \<lparr> bd_t = t, bd_CB_percent = CB_pct, bd_QF = QF,
               bd_dfFirst = dfFirst mintResult, bd_dfLast = dfLast mintResult,
               bd_mintedPerPurchaseAvg = mintedPerPurchaseAvg mintResult,
               bd_capUsage = capUsage,
               bd_discount_percent = discount_pct,
               bd_discountRubTotal = discountRubTotal,
               bd_burnDiscountTokens = burnDiscountTokens,
               bd_accessFeeTokens = accessFeeTokens,
               bd_netValueRub = netValueRub,
               bd_effectiveCashbackRub = effectiveCashbackRub,
               bd_effectiveDiscountRub = effectiveDiscountRub,
               bd_initialGlobalTotalMinted = initialGlobalTotalMinted,
               bd_assumedUsers = ASSUMED_USERS,
               bd_assumedBurnRate = ASSUMED_BURN_RATE,
               bd_newGlobalTotalMinted = newGlobal \<rparr> \<rparr>)"


subsection \<open>The mint accumulator as the specification words it\<close>

text \<open>
  The specification describes the accumulator as a sequential fold over the purchase
  index \<open>0 .. numberOfPurchases - 1\<close> carrying the pair
  \<open>(userCumulativeMint, globalCumulativeMint)\<close>, started at \<open>(0, globalTotalMintedBefore)\<close>.
  These two definitions follow those words, to be compared with \<open>calculateMintedTokens\<close>.
\<close>

definition spec_mint_step :: "UserInputs \<Rightarrow> SystemParams \<Rightarrow> nat \<Rightarrow> real \<times> real \<Rightarrow> real \<times> real" where
  "spec_mint_step inputs params i acc =
     (case acc of (userCumulativeMint, globalCumulativeMint) \<Rightarrow>
        let minted =
              purchasePrice inputs
              * calculateCashbackPercent (of_int \<lfloor>period inputs\<rfloor>) params
              * calculateQualityFactor (returnProbability inputs) (reviewQuality inputs) params
              * calculateDiminishingFactor userCumulativeMint params
              / calculateTokenPrice globalCumulativeMint params
        in (userCumulativeMint + minted, globalCumulativeMint + minted))"

definition spec_mint_fold :: "UserInputs \<Rightarrow> SystemParams \<Rightarrow> real \<Rightarrow> real \<times> real" where
  "spec_mint_fold inputs params globalTotalMintedBefore =
     fold (spec_mint_step inputs params) [0..<nat (numberOfPurchases inputs)]
       (0, globalTotalMintedBefore)"

subsection \<open>Concrete inputs\<close>

text \<open>The scenario of the specification with a single purchase.\<close>

definition singlePurchaseInputs :: UserInputs where
  "singlePurchaseInputs =
     \<lparr> purchasePrice = 1000, numberOfPurchases = 1, period = 1,
       reviewQuality = 0.8, returnProbability = 0.1 \<rparr>"

section \<open>The loops in closed form\<close>

text \<open>
  The \<^verbatim>\<open>for\<close> loop entered at index \<open>i\<close> runs its body \<open>numberOfPurchases - i\<close> times, and
  not at all when the bound is not above \<open>i\<close>.
\<close>

lemma mint_loop_funpow:
  "mint_loop inputs params t i s =
     (mint_body inputs params t ^^ nat (numberOfPurchases inputs - int i)) s"
proof (induction inputs params t i s rule: mint_loop.induct)
  case (1 inputs params t i s)
  show ?case
  proof (cases "int i < numberOfPurchases inputs")
    case True
    then have n: "nat (numberOfPurchases inputs - int i) =
                  Suc (nat (numberOfPurchases inputs - int (i + 1)))"
      by simp
    have "mint_loop inputs params t i s =
          mint_loop inputs params t (i + 1) (mint_body inputs params t s)"
      using True by (subst mint_loop.simps) simp
    also have "\<dots> = (mint_body inputs params t ^^ nat (numberOfPurchases inputs - int (i + 1)))
                       (mint_body inputs params t s)"
      using "1.IH" [OF True] .
    finally show ?thesis
      by (simp only: n funpow_Suc_right o_apply)
  next
    case False
    then have "nat (numberOfPurchases inputs - int i) = 0" by simp
    moreover have "mint_loop inputs params t i s = s"
      using False by (subst mint_loop.simps) simp
    ultimately show ?thesis by simp
  qed
qed

lemma burn_loop_closed:
  "burn_loop inputs d p i b =
     b + of_nat (nat (numberOfPurchases inputs - int i)) * (purchasePrice inputs * d / p)"
proof (induction inputs d p i b rule: burn_loop.induct)
  case (1 inputs d p i b)
  show ?case
  proof (cases "int i < numberOfPurchases inputs")
    case True
    then have n: "nat (numberOfPurchases inputs - int i) =
                  Suc (nat (numberOfPurchases inputs - int (i + 1)))"
      by simp
    have "burn_loop inputs d p i b =
          burn_loop inputs d p (i + 1) (b + purchasePrice inputs * d / p)"
      using True by (subst burn_loop.simps) (simp add: Let_def)
    also have "\<dots> = (b + purchasePrice inputs * d / p) +
        of_nat (nat (numberOfPurchases inputs - int (i + 1))) * (purchasePrice inputs * d / p)"
      using "1.IH" [OF True refl refl] .
    finally show ?thesis
      by (simp only: n of_nat_Suc) (simp add: algebra_simps)
  next
    case False
    then have "nat (numberOfPurchases inputs - int i) = 0" by simp
    moreover have "burn_loop inputs d p i b = b"
      using False by (subst burn_loop.simps) simp
    ultimately show ?thesis by simp
  qed
qed

lemma calculateMintedTokens_total:
  "totalMintedUser (calculateMintedTokens inputs params g0) =
     snd ((mint_body inputs params (of_int \<lfloor>period inputs\<rfloor>) ^^ nat (numberOfPurchases inputs))
            (g0, 0))"
  by (simp add: calculateMintedTokens_def Let_def mint_loop_funpow)

lemma calculateMintedTokens_global:
  "newGlobalTotalMinted (calculateMintedTokens inputs params g0) =
     fst ((mint_body inputs params (of_int \<lfloor>period inputs\<rfloor>) ^^ nat (numberOfPurchases inputs))
            (g0, 0))"
  by (simp add: calculateMintedTokens_def Let_def mint_loop_funpow)

lemma calculateBurnedTokens_closed:
  "calculateBurnedTokens inputs params burnedYear tokenPrice =
     of_nat (nat (numberOfPurchases inputs))
       * (purchasePrice inputs * calculateDiscountPercent burnedYear params / tokenPrice)
     + access_fee params"
  by (simp add: calculateBurnedTokens_def Let_def burn_loop_closed)

section \<open>The fields of the result\<close>

lemma results_totalMintedUser:
  "res_totalMintedUser (results inputs params) =
     totalMintedUser (calculateMintedTokens inputs params INITIAL_GLOBAL_MINTED)"
  by (simp add: results_def Let_def)

lemma results_tokenPrice:
  "res_tokenPrice (results inputs params) =
     calculateTokenPrice
       (INITIAL_GLOBAL_MINTED + res_totalMintedUser (results inputs params) * ASSUMED_USERS) params"
  by (simp add: results_def Let_def)

lemma results_totalBurned:
  "res_totalBurned (results inputs params) =
     calculateBurnedTokens inputs params
       (res_totalMintedUser (results inputs params) * ASSUMED_BURN_RATE * ASSUMED_USERS)
       (res_tokenPrice (results inputs params))"
  by (simp add: results_def Let_def)

lemma results_netTokens:
  "res_netTokens (results inputs params) =
     res_totalMintedUser (results inputs params) - res_totalBurned (results inputs params)"
  by (simp add: results_def Let_def)

lemma results_burnDiscountTokens:
  "bd_burnDiscountTokens (res_breakdown (results inputs params)) =
     purchasePrice inputs * of_int (numberOfPurchases inputs)
       * calculateDiscountPercent
           (res_totalMintedUser (results inputs params) * ASSUMED_BURN_RATE * ASSUMED_USERS) params
       / res_tokenPrice (results inputs params)"
  by (simp add: results_def Let_def)

lemma results_accessFeeTokens:
  "bd_accessFeeTokens (res_breakdown (results inputs params)) = access_fee params"
  by (simp add: results_def Let_def)

section \<open>Signs and bounds of the formulas\<close>

lemma calculateCashbackPercent_nonneg: "0 \<le> calculateCashbackPercent t params"
  by (simp add: calculateCashbackPercent_def)

lemma calculateQualityFactor_ge_one:
  assumes "0 \<le> beta params" and "rp \<le> 1" and "0 \<le> rq"
  shows "1 \<le> calculateQualityFactor rp rq params"
  using assms by (simp add: calculateQualityFactor_def)

lemma calculateDiminishingFactor_pos: "0 < calculateDiminishingFactor u params"
  by (simp add: calculateDiminishingFactor_def)

lemma diminishing_le_one:
  assumes "0 \<le> gamma params" and "0 < user_cap params" and "0 \<le> u"
  shows "calculateDiminishingFactor u params \<le> calculateDiminishingFactor 0 params"
  using assms by (simp add: calculateDiminishingFactor_def)

lemma calculateTokenPrice_pos:
  assumes "0 < P0 params" and "0 \<le> k params"
  shows "0 < calculateTokenPrice g params"
proof -
  have "0 \<le> k params * g ^ 2"
    using assms(2) by simp
  then have "0 < 1 + k params * g ^ 2"
    by linarith
  then show ?thesis
    using assms(1) by (simp add: calculateTokenPrice_def)
qed

lemma calculateDiscountPercent_nonneg: "0 \<le> calculateDiscountPercent b params"
  by (simp add: calculateDiscountPercent_def)

lemma calculateBurnedTokens_ge_fee:
  assumes "0 \<le> purchasePrice inputs" and "0 < tokenPrice"
  shows "access_fee params \<le> calculateBurnedTokens inputs params b tokenPrice"
proof -
  have "0 \<le> purchasePrice inputs * calculateDiscountPercent b params / tokenPrice"
    using assms calculateDiscountPercent_nonneg [of b params] by simp
  then have "0 \<le> of_nat (nat (numberOfPurchases inputs))
       * (purchasePrice inputs * calculateDiscountPercent b params / tokenPrice)"
    by (rule mult_nonneg_nonneg [OF of_nat_0_le_iff])
  then show ?thesis
    unfolding calculateBurnedTokens_closed by linarith
qed

lemma default_params_fields:
  "P0 DEFAULT_SYSTEM_PARAMS = 1" "k DEFAULT_SYSTEM_PARAMS = 0.0001"
  "access_fee DEFAULT_SYSTEM_PARAMS = 10" "burn_cap DEFAULT_SYSTEM_PARAMS = 1000000"
  "user_cap DEFAULT_SYSTEM_PARAMS = 10000" "gamma DEFAULT_SYSTEM_PARAMS = 0.5"
  "beta DEFAULT_SYSTEM_PARAMS = 0.3"
  by (simp_all add: DEFAULT_SYSTEM_PARAMS_def)

lemma default_tokenPrice_pos: "0 < calculateTokenPrice g DEFAULT_SYSTEM_PARAMS"
  by (rule calculateTokenPrice_pos) (simp_all add: default_params_fields)

section \<open>The iterates of the mint loop\<close>

text \<open>
  Both accumulators receive the same amount in every iteration, so the global one is the
  user's one shifted by the starting supply.
\<close>

lemma mint_body_pair:
  "mint_body inputs params t (g, u) =
     (g + purchasePrice inputs * calculateCashbackPercent t params
            * calculateQualityFactor (returnProbability inputs) (reviewQuality inputs) params
            * calculateDiminishingFactor u params / calculateTokenPrice g params,
      u + purchasePrice inputs * calculateCashbackPercent t params
            * calculateQualityFactor (returnProbability inputs) (reviewQuality inputs) params
            * calculateDiminishingFactor u params / calculateTokenPrice g params)"
  by (simp add: mint_body_def Let_def)

lemma mint_iter_global:
  "fst ((mint_body inputs params t ^^ n) (g0, 0)) =
     g0 + snd ((mint_body inputs params t ^^ n) (g0, 0))"
proof (induction n)
  case 0
  show ?case by simp
next
  case (Suc n)
  obtain g u where gu: "(mint_body inputs params t ^^ n) (g0, 0) = (g, u)"
    by (cases "(mint_body inputs params t ^^ n) (g0, 0)")
  show ?case
    using Suc.IH by (simp add: gu mint_body_pair)
qed

lemma mint_iter_Suc:
  "snd ((mint_body inputs params t ^^ Suc n) (g0, 0)) =
     snd ((mint_body inputs params t ^^ n) (g0, 0))
     + purchasePrice inputs * calculateCashbackPercent t params
         * calculateQualityFactor (returnProbability inputs) (reviewQuality inputs) params
         * calculateDiminishingFactor (snd ((mint_body inputs params t ^^ n) (g0, 0))) params
         / calculateTokenPrice (g0 + snd ((mint_body inputs params t ^^ n) (g0, 0))) params"
proof -
  obtain g u where gu: "(mint_body inputs params t ^^ n) (g0, 0) = (g, u)"
    by (cases "(mint_body inputs params t ^^ n) (g0, 0)")
  have "g = g0 + u"
    using mint_iter_global [where inputs = inputs and params = params and t = t and n = n and ?g0.0 = g0]
    by (simp add: gu)
  then show ?thesis
    by (simp add: gu mint_body_pair)
qed

text \<open>The amount minted by one purchase is not negative on the documented domain.\<close>

lemma mint_iter_increasing:
  assumes "0 \<le> purchasePrice inputs" and "0 \<le> beta params"
    and "returnProbability inputs \<le> 1" and "0 \<le> reviewQuality inputs"
    and "0 < P0 params" and "0 \<le> k params"
  shows "snd ((mint_body inputs params t ^^ n) (g0, 0))
           \<le> snd ((mint_body inputs params t ^^ Suc n) (g0, 0))"
proof -
  have qf: "0 \<le> calculateQualityFactor (returnProbability inputs) (reviewQuality inputs) params"
    using calculateQualityFactor_ge_one [OF assms(2,3,4)] by linarith
  have "0 \<le> purchasePrice inputs * calculateCashbackPercent t params
         * calculateQualityFactor (returnProbability inputs) (reviewQuality inputs) params
         * calculateDiminishingFactor (snd ((mint_body inputs params t ^^ n) (g0, 0))) params
         / calculateTokenPrice (g0 + snd ((mint_body inputs params t ^^ n) (g0, 0))) params"
    using assms(1) qf calculateCashbackPercent_nonneg [of t params]
      calculateDiminishingFactor_pos [of _ params]
      calculateTokenPrice_pos [OF assms(5,6)]
    by (intro divide_nonneg_pos mult_nonneg_nonneg) (simp_all add: less_imp_le)
  then show ?thesis
    unfolding mint_iter_Suc by linarith
qed

lemma mint_iter_nonneg:
  assumes "0 \<le> purchasePrice inputs" and "0 \<le> beta params"
    and "returnProbability inputs \<le> 1" and "0 \<le> reviewQuality inputs"
    and "0 < P0 params" and "0 \<le> k params"
  shows "0 \<le> snd ((mint_body inputs params t ^^ n) (g0, 0))"
proof (induction n)
  case 0
  show ?case by simp
next
  case (Suc n)
  then show ?case
    using mint_iter_increasing [OF assms, where t = t and n = n and ?g0.0 = g0] by linarith
qed

text \<open>With no purchase the loops do not run.\<close>

lemma zero_purchases_total:
  assumes "numberOfPurchases inputs \<le> 0"
  shows "totalMintedUser (calculateMintedTokens inputs params g0) = 0"
  using assms by (simp add: calculateMintedTokens_total)

lemma zero_purchases_burned:
  assumes "numberOfPurchases inputs \<le> 0"
  shows "calculateBurnedTokens inputs params b p = access_fee params"
  using assms by (simp add: calculateBurnedTokens_closed)

section \<open>C1: the mint accumulator is the sequential fold\<close>

lemma spec_mint_step_body:
  "spec_mint_step inputs params i (u, g) =
     prod.swap (mint_body inputs params (of_int \<lfloor>period inputs\<rfloor>) (g, u))"
  by (simp add: spec_mint_step_def mint_body_def Let_def)

lemma spec_fold_funpow:
  "fold (spec_mint_step inputs params) [0..<m] (u0, g0) =
     prod.swap ((mint_body inputs params (of_int \<lfloor>period inputs\<rfloor>) ^^ m) (g0, u0))"
proof (induction m)
  case 0
  show ?case by simp
next
  case (Suc m)
  obtain g u where gu: "(mint_body inputs params (of_int \<lfloor>period inputs\<rfloor>) ^^ m) (g0, u0) = (g, u)"
    by (cases "(mint_body inputs params (of_int \<lfloor>period inputs\<rfloor>) ^^ m) (g0, u0)")
  show ?case
    using Suc.IH by (simp add: gu spec_mint_step_body)
qed

text \<open>
  Claim C1. For \<open>numberOfPurchases \<ge> 1\<close> and any parameters, the \<open>totalMintedUser\<close> returned
  by \<open>calculateMintedTokens\<close> is the first component of the sequential fold over the
  purchase indices that starts from \<open>(0, globalTotalMintedBefore)\<close>, mints
  \<open>purchasePrice \<sqdot> CashbackPercent(floor period) \<sqdot> QualityFactor \<sqdot> DiminishingFactor(user) /
  TokenPrice(global)\<close> and adds the amount to both accumulators; the returned global total
  is the second component, and \<open>mintedPerPurchaseAvg\<close> is that total divided by
  \<open>numberOfPurchases\<close>.
\<close>

theorem C1_mint_is_sequential_fold:
  assumes "1 \<le> numberOfPurchases inputs"
  shows "totalMintedUser (calculateMintedTokens inputs params g0)
           = fst (spec_mint_fold inputs params g0)
       \<and> newGlobalTotalMinted (calculateMintedTokens inputs params g0)
           = snd (spec_mint_fold inputs params g0)
       \<and> mintedPerPurchaseAvg (calculateMintedTokens inputs params g0)
           = fst (spec_mint_fold inputs params g0) / of_int (numberOfPurchases inputs)"
proof -
  have avg: "mintedPerPurchaseAvg (calculateMintedTokens inputs params g0)
       = totalMintedUser (calculateMintedTokens inputs params g0) / of_int (numberOfPurchases inputs)"
    by (simp add: calculateMintedTokens_def Let_def)
  show ?thesis
    by (simp add: avg calculateMintedTokens_total calculateMintedTokens_global
        spec_mint_fold_def spec_fold_funpow)
qed

theorem C1_mint_is_sequential_fold_witness:
  "1 \<le> numberOfPurchases initialUserInputs
   \<and> totalMintedUser (calculateMintedTokens initialUserInputs DEFAULT_SYSTEM_PARAMS INITIAL_GLOBAL_MINTED)
       = fst (spec_mint_fold initialUserInputs DEFAULT_SYSTEM_PARAMS INITIAL_GLOBAL_MINTED)
   \<and> mintedPerPurchaseAvg (calculateMintedTokens initialUserInputs DEFAULT_SYSTEM_PARAMS INITIAL_GLOBAL_MINTED)
       = fst (spec_mint_fold initialUserInputs DEFAULT_SYSTEM_PARAMS INITIAL_GLOBAL_MINTED) / 7"
proof -
  have n: "numberOfPurchases initialUserInputs = 7"
    by (simp add: initialUserInputs_def)
  then have "1 \<le> numberOfPurchases initialUserInputs"
    by simp
  from C1_mint_is_sequential_fold [OF this, of DEFAULT_SYSTEM_PARAMS INITIAL_GLOBAL_MINTED] n
  show ?thesis by simp
qed

section \<open>C2: the burn accumulator in closed form\<close>

text \<open>
  Claim C2. \<open>calculateBurnedTokens\<close> returns
  \<open>numberOfPurchases \<sqdot> (purchasePrice \<sqdot> DiscountPercent(marketBurnedThisYear)) / tokenPrice + access_fee\<close>:
  one discount percent and one token price serve every iteration, and the access fee is
  added once, in tokens. The purchase count is a count (not negative) and the quotient
  has a non-zero denominator.
\<close>

theorem C2_burn_closed_form:
  assumes "0 \<le> numberOfPurchases inputs" and "tokenPrice \<noteq> 0"
  shows "calculateBurnedTokens inputs params marketBurnedThisYear tokenPrice =
           of_int (numberOfPurchases inputs)
             * (purchasePrice inputs * calculateDiscountPercent marketBurnedThisYear params)
             / tokenPrice
           + access_fee params"
  using assms by (simp add: calculateBurnedTokens_closed)

theorem C2_burn_closed_form_witness:
  "0 \<le> numberOfPurchases initialUserInputs \<and> (2::real) \<noteq> 0
   \<and> calculateBurnedTokens initialUserInputs DEFAULT_SYSTEM_PARAMS 0 2 = 3510"
proof -
  have n: "0 \<le> numberOfPurchases initialUserInputs"
    by (simp add: initialUserInputs_def)
  have p: "(2::real) \<noteq> 0" by simp
  from C2_burn_closed_form [OF n p, of DEFAULT_SYSTEM_PARAMS 0] n
  show ?thesis
    by (simp add: initialUserInputs_def DEFAULT_SYSTEM_PARAMS_def calculateDiscountPercent_def)
qed

section \<open>C3: the reported token price\<close>

lemma single_total:
  "totalMintedUser (calculateMintedTokens singlePurchaseInputs DEFAULT_SYSTEM_PARAMS 10000)
     = 60192 / 10001000"
  by (simp add: calculateMintedTokens_total singlePurchaseInputs_def DEFAULT_SYSTEM_PARAMS_def
      mint_body_def Let_def calculateCashbackPercent_def calculateQualityFactor_def
      calculateDiminishingFactor_def calculateTokenPrice_def)

lemma single_global:
  "newGlobalTotalMinted (calculateMintedTokens singlePurchaseInputs DEFAULT_SYSTEM_PARAMS 10000)
     = 10000 + 60192 / 10001000"
  by (simp add: calculateMintedTokens_global singlePurchaseInputs_def DEFAULT_SYSTEM_PARAMS_def
      mint_body_def Let_def calculateCashbackPercent_def calculateQualityFactor_def
      calculateDiminishingFactor_def calculateTokenPrice_def)

text \<open>
  Claim C3. The \<open>tokenPrice\<close> field of the result is
  \<open>TokenPrice(INITIAL_GLOBAL_MINTED + totalMintedUser \<times> ASSUMED_USERS)\<close>, the global-supply
  approximation; it is not the price at the \<open>newGlobalTotalMinted\<close> that the mint loop
  returns, as the one-purchase scenario shows, where the two prices differ.
\<close>

theorem C3_tokenPrice_from_approximation:
  "res_tokenPrice (results inputs params) =
     calculateTokenPrice
       (INITIAL_GLOBAL_MINTED
          + totalMintedUser (calculateMintedTokens inputs params INITIAL_GLOBAL_MINTED)
            * ASSUMED_USERS) params
   \<and> res_tokenPrice (results singlePurchaseInputs DEFAULT_SYSTEM_PARAMS) \<noteq>
     calculateTokenPrice
       (newGlobalTotalMinted
          (calculateMintedTokens singlePurchaseInputs DEFAULT_SYSTEM_PARAMS INITIAL_GLOBAL_MINTED))
       DEFAULT_SYSTEM_PARAMS"
proof
  show "res_tokenPrice (results inputs params) =
     calculateTokenPrice
       (INITIAL_GLOBAL_MINTED
          + totalMintedUser (calculateMintedTokens inputs params INITIAL_GLOBAL_MINTED)
            * ASSUMED_USERS) params"
    by (simp add: results_def Let_def)
next
  have "res_tokenPrice (results singlePurchaseInputs DEFAULT_SYSTEM_PARAMS) =
          calculateTokenPrice (10000 + 60192 / 10001000 * 100) DEFAULT_SYSTEM_PARAMS"
    by (simp add: results_tokenPrice results_totalMintedUser INITIAL_GLOBAL_MINTED_def
        ASSUMED_USERS_def single_total)
  moreover have "calculateTokenPrice
       (newGlobalTotalMinted
          (calculateMintedTokens singlePurchaseInputs DEFAULT_SYSTEM_PARAMS INITIAL_GLOBAL_MINTED))
       DEFAULT_SYSTEM_PARAMS = calculateTokenPrice (10000 + 60192 / 10001000) DEFAULT_SYSTEM_PARAMS"
    by (simp add: INITIAL_GLOBAL_MINTED_def single_global)
  moreover have "calculateTokenPrice (10000 + 60192 / 10001000 * 100) DEFAULT_SYSTEM_PARAMS \<noteq>
                 calculateTokenPrice (10000 + 60192 / 10001000) DEFAULT_SYSTEM_PARAMS"
    by (simp add: calculateTokenPrice_def DEFAULT_SYSTEM_PARAMS_def power2_eq_square)
  ultimately show "res_tokenPrice (results singlePurchaseInputs DEFAULT_SYSTEM_PARAMS) \<noteq>
     calculateTokenPrice
       (newGlobalTotalMinted
          (calculateMintedTokens singlePurchaseInputs DEFAULT_SYSTEM_PARAMS INITIAL_GLOBAL_MINTED))
       DEFAULT_SYSTEM_PARAMS"
    by simp
qed

section \<open>C4: the split of the burn\<close>

text \<open>
  Claim C4. In every result the destroyed and the redistributed parts add up to
  \<open>totalBurned\<close>, and when \<open>totalBurned\<close> is positive the destroyed part is 0.7 of it and
  the redistributed part 0.3 of it. (In exact arithmetic; the specification allows a
  floating-point epsilon.)
\<close>

theorem C4_burn_split:
  "res_burnDestroyed (results inputs params) + res_burnRedistributed (results inputs params)
     = res_totalBurned (results inputs params)
   \<and> (0 < res_totalBurned (results inputs params) \<longrightarrow>
        res_burnDestroyed (results inputs params) / res_totalBurned (results inputs params) = 0.7
      \<and> res_burnRedistributed (results inputs params) / res_totalBurned (results inputs params) = 0.3)"
proof -
  have d: "res_burnDestroyed (results inputs params) = res_totalBurned (results inputs params) * 0.7"
    by (simp add: results_def Let_def)
  have r: "res_burnRedistributed (results inputs params) = res_totalBurned (results inputs params) * 0.3"
    by (simp add: results_def Let_def)
  show ?thesis
    unfolding d r by simp
qed

theorem C4_burn_split_witness:
  "0 < res_totalBurned (results initialUserInputs DEFAULT_SYSTEM_PARAMS)
   \<and> res_burnDestroyed (results initialUserInputs DEFAULT_SYSTEM_PARAMS)
       / res_totalBurned (results initialUserInputs DEFAULT_SYSTEM_PARAMS) = 0.7
   \<and> res_burnRedistributed (results initialUserInputs DEFAULT_SYSTEM_PARAMS)
       / res_totalBurned (results initialUserInputs DEFAULT_SYSTEM_PARAMS) = 0.3"
proof -
  have "access_fee DEFAULT_SYSTEM_PARAMS
          \<le> res_totalBurned (results initialUserInputs DEFAULT_SYSTEM_PARAMS)"
    unfolding results_totalBurned results_tokenPrice
    by (rule calculateBurnedTokens_ge_fee)
       (simp_all add: initialUserInputs_def default_tokenPrice_pos)
  then have pos: "0 < res_totalBurned (results initialUserInputs DEFAULT_SYSTEM_PARAMS)"
    by (simp add: default_params_fields)
  from C4_burn_split [of initialUserInputs DEFAULT_SYSTEM_PARAMS] pos
  show ?thesis by blast
qed

section \<open>C6: the diminishing factor after the last purchase\<close>

text \<open>
  Claim C6. On the documented domain (\<open>purchasePrice\<close> and \<open>reviewQuality\<close> not negative,
  \<open>returnProbability \<le> 1\<close>, \<open>beta\<close>, \<open>gamma\<close>, \<open>k\<close> not negative, \<open>P0\<close> and \<open>user_cap\<close> positive) the
  snapshot \<open>dfLast\<close>, the diminishing factor at the user's final cumulative mint, is at most
  \<open>dfFirst\<close>, the factor at zero mint; so it is in particular for \<open>numberOfPurchases \<ge> 1\<close>
  and \<open>purchasePrice > 0\<close>. The same holds of the two fields of the breakdown.
\<close>

theorem C6_diminishing_snapshots:
  assumes "0 \<le> purchasePrice inputs"
    and "0 \<le> reviewQuality inputs" and "returnProbability inputs \<le> 1"
    and "0 \<le> beta params" and "0 \<le> gamma params"
    and "0 < P0 params" and "0 \<le> k params" and "0 < user_cap params"
  shows "dfLast (calculateMintedTokens inputs params g0)
           \<le> dfFirst (calculateMintedTokens inputs params g0)
       \<and> bd_dfLast (res_breakdown (results inputs params))
           \<le> bd_dfFirst (res_breakdown (results inputs params))"
proof -
  have fin: "dfLast (calculateMintedTokens inputs params g) =
      calculateDiminishingFactor (totalMintedUser (calculateMintedTokens inputs params g)) params"
    for g by (simp add: calculateMintedTokens_def Let_def)
  have ini: "dfFirst (calculateMintedTokens inputs params g) = calculateDiminishingFactor 0 params"
    for g by (simp add: calculateMintedTokens_def Let_def)
  have nonneg: "0 \<le> totalMintedUser (calculateMintedTokens inputs params g)" for g
    unfolding calculateMintedTokens_total
    using assms(1,4,3,2,6,7) by (rule mint_iter_nonneg)
  have le: "dfLast (calculateMintedTokens inputs params g)
              \<le> dfFirst (calculateMintedTokens inputs params g)" for g
    unfolding fin ini using assms(5,8) nonneg by (rule diminishing_le_one)
  have "bd_dfLast (res_breakdown (results inputs params))
          = dfLast (calculateMintedTokens inputs params INITIAL_GLOBAL_MINTED)"
    and "bd_dfFirst (res_breakdown (results inputs params))
          = dfFirst (calculateMintedTokens inputs params INITIAL_GLOBAL_MINTED)"
    by (simp_all add: results_def Let_def)
  then show ?thesis
    using le by simp
qed

theorem C6_diminishing_snapshots_witness:
  "0 \<le> purchasePrice initialUserInputs
   \<and> 0 \<le> reviewQuality initialUserInputs \<and> returnProbability initialUserInputs \<le> 1
   \<and> 0 \<le> beta DEFAULT_SYSTEM_PARAMS \<and> 0 \<le> gamma DEFAULT_SYSTEM_PARAMS
   \<and> 0 < P0 DEFAULT_SYSTEM_PARAMS \<and> 0 \<le> k DEFAULT_SYSTEM_PARAMS
   \<and> 0 < user_cap DEFAULT_SYSTEM_PARAMS
   \<and> 1 \<le> numberOfPurchases initialUserInputs \<and> 0 < purchasePrice initialUserInputs
   \<and> bd_dfLast (res_breakdown (results initialUserInputs DEFAULT_SYSTEM_PARAMS))
       \<le> bd_dfFirst (res_breakdown (results initialUserInputs DEFAULT_SYSTEM_PARAMS))"
proof -
  have h: "0 \<le> purchasePrice initialUserInputs"
    "0 \<le> reviewQuality initialUserInputs" "returnProbability initialUserInputs \<le> 1"
    "0 \<le> beta DEFAULT_SYSTEM_PARAMS" "0 \<le> gamma DEFAULT_SYSTEM_PARAMS"
    "0 < P0 DEFAULT_SYSTEM_PARAMS" "0 \<le> k DEFAULT_SYSTEM_PARAMS"
    "0 < user_cap DEFAULT_SYSTEM_PARAMS"
    by (simp_all add: initialUserInputs_def default_params_fields)
  have d: "1 \<le> numberOfPurchases initialUserInputs" "0 < purchasePrice initialUserInputs"
    by (simp_all add: initialUserInputs_def)
  from C6_diminishing_snapshots [OF h] h d show ?thesis
    by blast
qed

section \<open>C7: the token price grows with the supply\<close>

text \<open>
  Claim C7. \<open>TokenPrice(totalGlobalMinted, params)\<close> is \<open>P0 \<sqdot> (1 + k \<sqdot> totalGlobalMinted\<^sup>2)\<close>.
  For parameters with \<open>k \<ge> 0\<close> (and \<open>P0 \<ge> 0\<close>, as every parameter is documented to be) it
  does not decrease in the supply: for two supply values \<open>g1 \<le> g2\<close>, quantities of minted
  tokens and so not negative, the price at \<open>g1\<close> is at most the price at \<open>g2\<close>. At supply
  0 the price under the default parameters is \<open>P0\<close>.
\<close>

theorem C7_tokenPrice_monotone:
  "calculateTokenPrice g params = P0 params * (1 + k params * g\<^sup>2)
   \<and> (0 \<le> k params \<and> 0 \<le> P0 params \<and> 0 \<le> g1 \<and> g1 \<le> g2 \<longrightarrow>
      calculateTokenPrice g1 params \<le> calculateTokenPrice g2 params)
   \<and> calculateTokenPrice 0 DEFAULT_SYSTEM_PARAMS = P0 DEFAULT_SYSTEM_PARAMS"
proof (intro conjI impI)
  show "calculateTokenPrice g params = P0 params * (1 + k params * g\<^sup>2)"
    by (simp add: calculateTokenPrice_def)
next
  assume a: "0 \<le> k params \<and> 0 \<le> P0 params \<and> 0 \<le> g1 \<and> g1 \<le> g2"
  then have "g1 ^ 2 \<le> g2 ^ 2"
    by (simp add: power_mono)
  then have "k params * g1 ^ 2 \<le> k params * g2 ^ 2"
    using a by (simp add: mult_left_mono)
  then have "1 + k params * g1 ^ 2 \<le> 1 + k params * g2 ^ 2"
    by simp
  then show "calculateTokenPrice g1 params \<le> calculateTokenPrice g2 params"
    unfolding calculateTokenPrice_def using a by (simp add: mult_left_mono)
next
  show "calculateTokenPrice 0 DEFAULT_SYSTEM_PARAMS = P0 DEFAULT_SYSTEM_PARAMS"
    by (simp add: calculateTokenPrice_def)
qed

theorem C7_tokenPrice_monotone_witness:
  "0 \<le> k DEFAULT_SYSTEM_PARAMS \<and> 0 \<le> P0 DEFAULT_SYSTEM_PARAMS \<and> (0::real) \<le> 100 \<and> (100::real) \<le> 200
   \<and> calculateTokenPrice 100 DEFAULT_SYSTEM_PARAMS \<le> calculateTokenPrice 200 DEFAULT_SYSTEM_PARAMS
   \<and> calculateTokenPrice 100 DEFAULT_SYSTEM_PARAMS = 2
   \<and> calculateTokenPrice 200 DEFAULT_SYSTEM_PARAMS = 5"
  using C7_tokenPrice_monotone [where params = DEFAULT_SYSTEM_PARAMS and ?g1.0 = 100 and ?g2.0 = 200]
  by (simp add: default_params_fields calculateTokenPrice_def)

section \<open>C8: no purchase at all\<close>

text \<open>
  Claim C8, as amended. For every parameter set and every input with
  \<open>numberOfPurchases = 0\<close> the mint loop runs zero times, so \<open>totalMintedUser = 0\<close>; the burn
  loop adds nothing, so \<open>totalBurned = access_fee\<close>; and \<open>netTokens = - access_fee\<close>, which is
  negative exactly when the access fee is positive.
\<close>

theorem C8_zero_purchases:
  assumes "numberOfPurchases inputs = 0"
  shows "res_totalMintedUser (results inputs params) = 0
       \<and> res_totalBurned (results inputs params) = access_fee params
       \<and> res_netTokens (results inputs params) = - access_fee params
       \<and> (res_netTokens (results inputs params) < 0) = (0 < access_fee params)"
proof -
  have le: "numberOfPurchases inputs \<le> 0"
    using assms by simp
  have m: "res_totalMintedUser (results inputs params) = 0"
    by (simp add: results_totalMintedUser zero_purchases_total [OF le])
  have b: "res_totalBurned (results inputs params) = access_fee params"
    by (simp add: results_totalBurned zero_purchases_burned [OF le])
  show ?thesis
    by (simp add: results_netTokens m b)
qed

theorem C8_zero_purchases_witness:
  "numberOfPurchases (initialUserInputs\<lparr>numberOfPurchases := 0\<rparr>) = 0
   \<and> 0 < access_fee DEFAULT_SYSTEM_PARAMS
   \<and> res_totalMintedUser (results (initialUserInputs\<lparr>numberOfPurchases := 0\<rparr>) DEFAULT_SYSTEM_PARAMS) = 0
   \<and> res_totalBurned (results (initialUserInputs\<lparr>numberOfPurchases := 0\<rparr>) DEFAULT_SYSTEM_PARAMS) = 10
   \<and> res_netTokens (results (initialUserInputs\<lparr>numberOfPurchases := 0\<rparr>) DEFAULT_SYSTEM_PARAMS) = - 10
   \<and> res_netTokens (results (initialUserInputs\<lparr>numberOfPurchases := 0\<rparr>) DEFAULT_SYSTEM_PARAMS) < 0"
  using C8_zero_purchases [of "initialUserInputs\<lparr>numberOfPurchases := 0\<rparr>" DEFAULT_SYSTEM_PARAMS]
  by (simp add: default_params_fields)

text \<open>
  The claim as written promises a negative \<open>netTokens\<close> for every parameter set. With an
  access fee of zero, which the documented domain admits, nothing is minted and nothing
  is burned, and \<open>netTokens\<close> is zero.
\<close>

theorem C8_zero_purchases_counterexample:
  "numberOfPurchases (initialUserInputs\<lparr>numberOfPurchases := 0\<rparr>) = 0
   \<and> \<not> res_netTokens (results (initialUserInputs\<lparr>numberOfPurchases := 0\<rparr>)
                               (DEFAULT_SYSTEM_PARAMS\<lparr>access_fee := 0\<rparr>)) < 0"
proof -
  have le: "numberOfPurchases (initialUserInputs\<lparr>numberOfPurchases := 0\<rparr>) \<le> 0"
    by simp
  have "res_netTokens (results (initialUserInputs\<lparr>numberOfPurchases := 0\<rparr>)
                               (DEFAULT_SYSTEM_PARAMS\<lparr>access_fee := 0\<rparr>)) = 0"
    by (simp add: results_netTokens results_totalBurned results_totalMintedUser
        zero_purchases_total [OF le] zero_purchases_burned [OF le])
  then show ?thesis by simp
qed

section \<open>C9: the two computations of the discount burn\<close>

text \<open>
  Claim C9. The breakdown computes the discount burn in one shot,
  \<open>(purchasePrice \<sqdot> numberOfPurchases \<sqdot> discount_percent) / tokenPrice\<close>, while
  \<open>calculateBurnedTokens\<close> sums \<open>purchasePrice \<sqdot> discount_percent / tokenPrice\<close> over the loop.
  For a purchase count that is not negative and a non-zero token price the two agree:
  \<open>burnDiscountTokens + accessFeeTokens = totalBurned\<close>.
\<close>

theorem C9_breakdown_agrees:
  assumes "0 \<le> numberOfPurchases inputs" and "res_tokenPrice (results inputs params) \<noteq> 0"
  shows "bd_burnDiscountTokens (res_breakdown (results inputs params))
           + bd_accessFeeTokens (res_breakdown (results inputs params))
         = res_totalBurned (results inputs params)"
  using assms(1)
  by (simp add: results_burnDiscountTokens results_accessFeeTokens results_totalBurned
      calculateBurnedTokens_closed)

theorem C9_breakdown_agrees_witness:
  "0 \<le> numberOfPurchases initialUserInputs
   \<and> res_tokenPrice (results initialUserInputs DEFAULT_SYSTEM_PARAMS) \<noteq> 0
   \<and> bd_burnDiscountTokens (res_breakdown (results initialUserInputs DEFAULT_SYSTEM_PARAMS))
           + bd_accessFeeTokens (res_breakdown (results initialUserInputs DEFAULT_SYSTEM_PARAMS))
         = res_totalBurned (results initialUserInputs DEFAULT_SYSTEM_PARAMS)"
proof -
  have n: "0 \<le> numberOfPurchases initialUserInputs"
    by (simp add: initialUserInputs_def)
  have "0 < res_tokenPrice (results initialUserInputs DEFAULT_SYSTEM_PARAMS)"
    unfolding results_tokenPrice by (rule default_tokenPrice_pos)
  then have p: "res_tokenPrice (results initialUserInputs DEFAULT_SYSTEM_PARAMS) \<noteq> 0"
    by simp
  from C9_breakdown_agrees [OF n p] n p show ?thesis by blast
qed

section \<open>C10: the burn is at least the access fee\<close>

text \<open>
  Claim C10. For \<open>purchasePrice \<ge> 0\<close> and parameters that yield a positive token price (and
  a non-zero \<open>burn_cap\<close>, the denominator inside the discount percent), \<open>totalBurned\<close> is at
  least \<open>access_fee\<close>, because the discount percent is clamped at zero and every purchase
  burns a non-negative amount; hence \<open>netTokens \<le> totalMintedUser - access_fee\<close>.
\<close>

theorem C10_burn_at_least_fee:
  assumes "0 \<le> purchasePrice inputs"
    and "0 < res_tokenPrice (results inputs params)"
    and "burn_cap params \<noteq> 0"
  shows "access_fee params \<le> res_totalBurned (results inputs params)
       \<and> res_netTokens (results inputs params)
           \<le> res_totalMintedUser (results inputs params) - access_fee params"
proof -
  have "access_fee params \<le> res_totalBurned (results inputs params)"
    unfolding results_totalBurned [of inputs params]
    using assms(1,2) by (rule calculateBurnedTokens_ge_fee)
  then show ?thesis
    by (simp add: results_netTokens)
qed

theorem C10_burn_at_least_fee_witness:
  "0 \<le> purchasePrice initialUserInputs
   \<and> 0 < res_tokenPrice (results initialUserInputs DEFAULT_SYSTEM_PARAMS)
   \<and> burn_cap DEFAULT_SYSTEM_PARAMS \<noteq> 0
   \<and> 10 \<le> res_totalBurned (results initialUserInputs DEFAULT_SYSTEM_PARAMS)"
proof -
  have a: "0 \<le> purchasePrice initialUserInputs"
    by (simp add: initialUserInputs_def)
  have p: "0 < res_tokenPrice (results initialUserInputs DEFAULT_SYSTEM_PARAMS)"
    unfolding results_tokenPrice by (rule default_tokenPrice_pos)
  have c: "burn_cap DEFAULT_SYSTEM_PARAMS \<noteq> 0"
    by (simp add: default_params_fields)
  from C10_burn_at_least_fee [OF a p c] a p c show ?thesis
    by (simp add: default_params_fields)
qed

end
